theory Spec2Isabelle
  imports Main
begin

section \<open>The redirect-resolution proxy worker\<close>

text \<open>
  The worker (\<^verbatim>\<open>src/worker/worker.js\<close>) is one request handler. It answers CORS preflights,
  reads a target URL from the path of the inbound request, fetches it with a fixed user agent
  and reports the URL the target resolves to in the header \<^verbatim>\<open>X-Final-Url\<close>.

  The handler runs on a host that provides \<^verbatim>\<open>URL\<close>, \<^verbatim>\<open>URLSearchParams\<close>, \<^verbatim>\<open>Headers\<close>,
  \<^verbatim>\<open>Response\<close> and \<^verbatim>\<open>fetch\<close>. The objects the handler builds and reads are modelled here as
  data; the two services of the host whose outcome the handler cannot know, parsing a string
  as a URL and performing the outbound request, are parameters of the model, so every general
  theorem below holds for any URL parser and any network.

  Strings are byte strings; a string of the host is written as its UTF-8 bytes. A copy of a
  \<^verbatim>\<open>Headers\<close> object keeps the order and the spelling of the names, where the host sorts and
  lowercases them: \<^verbatim>\<open>get\<close> and \<^verbatim>\<open>set\<close>, the only operations the handler uses, depend on
  neither.
\<close>

subsection \<open>String operations used by the handler\<close>

definition startsWith :: "string \<Rightarrow> string \<Rightarrow> bool" where
  \<comment> \<open>\<^verbatim>\<open>s.startsWith(p)\<close>\<close>
  "startsWith s p = (take (length p) s = p)"

fun str_includes :: "string \<Rightarrow> string \<Rightarrow> bool" where
  \<comment> \<open>\<^verbatim>\<open>s.includes(p)\<close>: \<open>p\<close> occurs somewhere in \<open>s\<close>\<close>
  "str_includes [] p = (p = [])"
| "str_includes (c # cs) p = (startsWith (c # cs) p \<or> str_includes cs p)"

definition ascii_lower :: "char \<Rightarrow> char" where
  "ascii_lower c =
     (case map_of (zip ''ABCDEFGHIJKLMNOPQRSTUVWXYZ'' ''abcdefghijklmnopqrstuvwxyz'') c of
        Some l \<Rightarrow> l
      | None \<Rightarrow> c)"

subsection \<open>Errors, bodies, headers\<close>

text \<open>A thrown JavaScript error; the handler only reads its \<^verbatim>\<open>message\<close>.\<close>

datatype error = Error (message: string)

text \<open>
  A body is \<^verbatim>\<open>null\<close>, a string given to the \<^verbatim>\<open>Response\<close> constructor, or a stream (the
  bytes it yields).
\<close>

datatype body = NullBody | TextBody string | StreamBody string

text \<open>
  A \<^verbatim>\<open>Headers\<close> object is a list of name/value pairs. Names are compared without regard to
  ASCII case, \<^verbatim>\<open>get\<close> joins the values of all headers of that name, and \<^verbatim>\<open>set\<close> overwrites
  the first header of that name, drops the others, and appends when there is none.
\<close>

type_synonym headers = "(string \<times> string) list"

definition same_name :: "string \<Rightarrow> string \<Rightarrow> bool" where
  "same_name a b = (map ascii_lower a = map ascii_lower b)"

fun join_values :: "string list \<Rightarrow> string" where
  "join_values [] = []"
| "join_values [v] = v"
| "join_values (v # vs) = v @ '', '' @ join_values vs"

definition Headers_get :: "string \<Rightarrow> headers \<Rightarrow> string option" where
  "Headers_get name hs =
     (case map snd (filter (\<lambda>h. same_name (fst h) name) hs) of
        [] \<Rightarrow> None
      | v # vs \<Rightarrow> Some (join_values (v # vs)))"

fun Headers_set :: "string \<Rightarrow> string \<Rightarrow> headers \<Rightarrow> headers" where
  "Headers_set name v [] = [(name, v)]"
| "Headers_set name v (h # hs) =
     (if same_name (fst h) name
      then (fst h, v) # filter (\<lambda>k. \<not> same_name (fst k) name) hs
      else h # Headers_set name v hs)"

subsection \<open>Requests and responses\<close>

record request =
  req_method :: string
  req_url :: string
  req_headers :: headers
  req_body :: body

text \<open>
  The options object given to \<^verbatim>\<open>fetch\<close>. \<open>init_body = None\<close> is an options object without
  a \<^verbatim>\<open>body\<close> member.
\<close>

record fetch_init =
  init_method :: string
  init_headers :: headers
  init_body :: "body option"
  init_redirect :: string

text \<open>
  A \<^verbatim>\<open>Response\<close> object. \<open>resp_url\<close> is \<^verbatim>\<open>response.url\<close>, the empty string when the host
  reports none.
\<close>

record response =
  resp_status :: nat
  resp_headers :: headers
  resp_body :: body
  resp_url :: string

definition Response_object :: "body \<Rightarrow> nat \<Rightarrow> headers \<Rightarrow> response" where
  \<comment> \<open>the object that \<^verbatim>\<open>new Response(body, {status, headers})\<close> builds; a string body without
      a content type is labelled as plain text\<close>
  "Response_object b st hs =
     \<lparr>resp_status = st,
      resp_headers =
        (case b of
           TextBody t \<Rightarrow>
             (if Headers_get ''Content-Type'' hs = None
              then hs @ [(''content-type'', ''text/plain;charset=UTF-8'')]
              else hs)
         | NullBody \<Rightarrow> hs
         | StreamBody t \<Rightarrow> hs),
      resp_body = b,
      resp_url = []\<rparr>"

text \<open>
  \<^verbatim>\<open>new Response(body, {status, headers})\<close> throws a \<^verbatim>\<open>RangeError\<close> for a status outside
  200..599 (the message is the one of the Workers runtime) and builds the object otherwise.
  The constructor also refuses a body together with one of the statuses 204, 205 and 304;
  the \<^verbatim>\<open>fetch\<close> of the host gives a response with such a status a null body, so that check is
  not part of the model.
\<close>

definition range_error :: error where
  "range_error =
     Error ''Responses may only be constructed with status codes in the range 200 to 599, inclusive.''"

definition Response_new :: "body \<Rightarrow> nat \<Rightarrow> headers \<Rightarrow> error + response" where
  "Response_new b st hs =
     (if st < 200 \<or> 599 < st then Inl range_error else Inr (Response_object b st hs))"

subsection \<open>URL objects and their search parameters\<close>

text \<open>
  A parsed URL: \<open>url_front\<close> is the serialised scheme and authority, so that the \<^verbatim>\<open>href\<close> is
  \<open>url_front\<close>, \<open>pathname\<close>, the query after \<^verbatim>\<open>?\<close> and the fragment after \<^verbatim>\<open>#\<close>.
\<close>

record url =
  url_front :: string
  pathname :: string
  query :: "string option"
  fragment :: "string option"

definition URL_search :: "url \<Rightarrow> string" where
  \<comment> \<open>the \<^verbatim>\<open>search\<close> getter: empty for a missing or empty query\<close>
  "URL_search u =
     (case query u of
        None \<Rightarrow> []
      | Some q \<Rightarrow> (if q = [] then [] else CHR ''?'' # q))"

definition URL_toString :: "url \<Rightarrow> string" where
  "URL_toString u =
     url_front u @ pathname u
       @ (case query u of None \<Rightarrow> [] | Some q \<Rightarrow> CHR ''?'' # q)
       @ (case fragment u of None \<Rightarrow> [] | Some f \<Rightarrow> CHR ''#'' # f)"

text \<open>
  \<^verbatim>\<open>searchParams\<close> reads the query as \<^verbatim>\<open>application/x-www-form-urlencoded\<close>: the query is
  split at \<^verbatim>\<open>&\<close>, empty pieces are skipped, each piece is split at its first \<^verbatim>\<open>=\<close>, \<^verbatim>\<open>+\<close>
  becomes a space, percent escapes are decoded and the result is read as UTF-8.
\<close>

fun split_on :: "char \<Rightarrow> string \<Rightarrow> string list" where
  "split_on sep [] = [[]]"
| "split_on sep (c # cs) =
     (if c = sep then [] # split_on sep cs
      else (case split_on sep cs of
              [] \<Rightarrow> [[c]]
            | p # ps \<Rightarrow> (c # p) # ps))"

definition is_hex :: "char \<Rightarrow> bool" where
  "is_hex c =
     (let n = (of_char c :: nat)
      in (48 \<le> n \<and> n \<le> 57) \<or> (65 \<le> n \<and> n \<le> 70) \<or> (97 \<le> n \<and> n \<le> 102))"

definition hex_val :: "char \<Rightarrow> nat" where
  "hex_val c =
     (let n = (of_char c :: nat)
      in if n \<le> 57 then n - 48 else if n \<le> 70 then n - 55 else n - 87)"

definition hex_digit :: "nat \<Rightarrow> char" where
  "hex_digit d = (if d < 10 then char_of (48 + d) else char_of (55 + d))"

fun percent_decode :: "string \<Rightarrow> string" where
  "percent_decode (a # b # c # rest) =
     (if a = CHR ''%'' \<and> is_hex b \<and> is_hex c
      then char_of (16 * hex_val b + hex_val c) # percent_decode rest
      else a # percent_decode (b # c # rest))"
| "percent_decode (a # rest) = a # percent_decode rest"
| "percent_decode [] = []"

definition plus_to_space :: "char \<Rightarrow> char" where
  "plus_to_space c = (if c = CHR ''+'' then CHR '' '' else c)"

text \<open>
  The decoded bytes are read as UTF-8, every ill-formed part becoming U+FFFD. \<open>utf8_sanitize\<close>
  is that reading, written back as UTF-8: a well-formed sequence is kept and an ill-formed one
  is replaced by the three bytes of U+FFFD. After a lead byte, \<open>utf8_continuation\<close> counts the
  continuation bytes that are accepted; the byte that is not accepted is read again as the
  start of the next sequence.
\<close>

definition replacement :: string where
  "replacement = [char_of (239 :: nat), char_of (191 :: nat), char_of (189 :: nat)]"

definition utf8_lead :: "char \<Rightarrow> (nat \<times> nat \<times> nat) option" where
  \<comment> \<open>for a lead byte: the number of continuation bytes and the range of the first of them\<close>
  "utf8_lead b =
     (let n = (of_char b :: nat)
      in if 194 \<le> n \<and> n \<le> 223 then Some (1, 128, 191)
         else if 224 \<le> n \<and> n \<le> 239
           then Some (2, if n = 224 then 160 else 128, if n = 237 then 159 else 191)
         else if 240 \<le> n \<and> n \<le> 244
           then Some (3, if n = 240 then 144 else 128, if n = 244 then 143 else 191)
         else None)"

fun utf8_continuation :: "nat \<Rightarrow> nat \<Rightarrow> nat \<Rightarrow> string \<Rightarrow> nat" where
  "utf8_continuation 0 lo hi bs = 0"
| "utf8_continuation (Suc k) lo hi [] = 0"
| "utf8_continuation (Suc k) lo hi (c # cs) =
     (if lo \<le> of_char c \<and> of_char c \<le> hi then Suc (utf8_continuation k 128 191 cs) else 0)"

fun utf8_sanitize :: "string \<Rightarrow> string" where
  "utf8_sanitize [] = []"
| "utf8_sanitize (b # bs) =
     (if (of_char b :: nat) < 128 then b # utf8_sanitize bs
      else (case utf8_lead b of
              None \<Rightarrow> replacement @ utf8_sanitize bs
            | Some (needed, lo, hi) \<Rightarrow>
                (let m = utf8_continuation needed lo hi bs
                 in (if m = needed then b # take m bs else replacement)
                    @ utf8_sanitize (drop m bs))))"

definition form_decode :: "string \<Rightarrow> string" where
  "form_decode s = utf8_sanitize (percent_decode (map plus_to_space s))"

definition parse_pair :: "string \<Rightarrow> string \<times> string" where
  "parse_pair piece =
     (let name = takeWhile (\<lambda>c. c \<noteq> CHR ''='') piece;
          val = drop 1 (dropWhile (\<lambda>c. c \<noteq> CHR ''='') piece)
      in (form_decode name, form_decode val))"

definition urlencoded_parse :: "string \<Rightarrow> (string \<times> string) list" where
  "urlencoded_parse s =
     map parse_pair (filter (\<lambda>piece. piece \<noteq> []) (split_on (CHR ''&'') s))"

text \<open>
  The serialiser keeps ASCII letters, digits and \<^verbatim>\<open>* - . _\<close>, writes a space as \<^verbatim>\<open>+\<close> and
  escapes every other byte.
\<close>

definition urlencoded_keep :: "char \<Rightarrow> bool" where
  "urlencoded_keep c =
     (let n = (of_char c :: nat)
      in (48 \<le> n \<and> n \<le> 57) \<or> (65 \<le> n \<and> n \<le> 90) \<or> (97 \<le> n \<and> n \<le> 122)
         \<or> c = CHR ''*'' \<or> c = CHR ''-'' \<or> c = CHR ''.'' \<or> c = CHR ''_'')"

definition urlencoded_byte :: "char \<Rightarrow> string" where
  "urlencoded_byte c =
     (if urlencoded_keep c then [c]
      else if c = CHR '' '' then ''+''
      else [CHR ''%'', hex_digit (of_char c div 16), hex_digit (of_char c mod 16)])"

definition urlencoded_string :: "string \<Rightarrow> string" where
  "urlencoded_string s = concat (map urlencoded_byte s)"

fun urlencoded_serialize :: "(string \<times> string) list \<Rightarrow> string" where
  "urlencoded_serialize [] = []"
| "urlencoded_serialize [(n, v)] = urlencoded_string n @ ''='' @ urlencoded_string v"
| "urlencoded_serialize ((n, v) # rest) =
     urlencoded_string n @ ''='' @ urlencoded_string v @ ''&'' @ urlencoded_serialize rest"

definition searchParams :: "url \<Rightarrow> (string \<times> string) list" where
  "searchParams u = urlencoded_parse (case query u of None \<Rightarrow> [] | Some q \<Rightarrow> q)"

definition searchParams_get :: "string \<Rightarrow> url \<Rightarrow> string option" where
  \<comment> \<open>the value of the first parameter of that name, \<open>None\<close> for \<^verbatim>\<open>null\<close>\<close>
  "searchParams_get name u = map_of (searchParams u) name"

definition searchParams_delete :: "string \<Rightarrow> url \<Rightarrow> url" where
  \<comment> \<open>removes every parameter of that name and writes the remaining list back as the query
      of the URL, \<^verbatim>\<open>null\<close> when nothing remains\<close>
  "searchParams_delete name u =
     (let serialized = urlencoded_serialize (filter (\<lambda>p. fst p \<noteq> name) (searchParams u))
      in u\<lparr>query := (if serialized = [] then None else Some serialized)\<rparr>)"

subsection \<open>The host\<close>

text \<open>
  \<open>URL_new\<close> is \<^verbatim>\<open>new URL(s)\<close>, which throws on a string that is not a URL. \<open>fetch\<close> is the
  outbound request: it throws on a failure of the network layer and otherwise yields the
  response of the upstream.
\<close>

record platform =
  URL_new :: "string \<Rightarrow> error + url"
  fetch :: "string \<Rightarrow> fetch_init \<Rightarrow> error + response"

subsection \<open>The handler\<close>

definition candidate :: "url \<Rightarrow> string" where
  \<comment> \<open>line 15: \<^verbatim>\<open>url.pathname.slice(1) + url.search\<close>\<close>
  "candidate u = drop 1 (pathname u) @ URL_search u"

definition isManualMode :: "request \<Rightarrow> url \<Rightarrow> bool" where
  \<comment> \<open>lines 24-25\<close>
  "isManualMode request u =
     (Headers_get ''X-Proxy-Manual-Redirect'' (req_headers request) = Some ''true''
      \<or> searchParams_get ''__proxy_redirect_mode'' u = Some ''manual'')"

definition strip_mode_param :: "platform \<Rightarrow> string \<Rightarrow> string" where
  \<comment> \<open>lines 27-34: the error of a failed parse is caught and dropped\<close>
  "strip_mode_param P targetUrl =
     (if str_includes targetUrl ''__proxy_redirect_mode=''
      then (case URL_new P targetUrl of
              Inr targetUrlObj \<Rightarrow>
                URL_toString (searchParams_delete ''__proxy_redirect_mode'' targetUrlObj)
            | Inl e \<Rightarrow> targetUrl)
      else targetUrl)"

definition targetUrl :: "platform \<Rightarrow> url \<Rightarrow> string" where
  \<comment> \<open>the value of \<^verbatim>\<open>targetUrl\<close> from line 35 on\<close>
  "targetUrl P u = strip_mode_param P (candidate u)"

definition fetchOptions :: "request \<Rightarrow> bool \<Rightarrow> fetch_init" where
  \<comment> \<open>lines 36-42\<close>
  "fetchOptions request manual =
     \<lparr>init_method = req_method request,
      init_headers =
        [(''User-Agent'',
          ''Mozilla/5.0 (compatible; Googlebot/2.1; +http://www.google.com/bot.html)'')],
      init_body = None,
      init_redirect = (if manual then ''manual'' else ''follow'')\<rparr>"

definition compose :: "bool \<Rightarrow> string \<Rightarrow> response \<Rightarrow> error + response" where
  \<comment> \<open>lines 46-71; \<^verbatim>\<open>if (location)\<close> holds for a header that is present and not empty;
      \<^verbatim>\<open>new Response\<close> throws for an upstream status outside 200..599\<close>
  "compose manual target upstream =
     (let headers0 = Headers_set ''Access-Control-Allow-Origin'' ''*'' (resp_headers upstream);
          headers1 = Headers_set ''Access-Control-Expose-Headers'' ''X-Final-Url, Location''
                       headers0
      in if manual
         then Response_new (resp_body upstream) (resp_status upstream)
                (if 300 \<le> resp_status upstream \<and> resp_status upstream < 400
                 then (case Headers_get ''Location'' (resp_headers upstream) of
                         None \<Rightarrow> headers1
                       | Some location \<Rightarrow>
                           (if location = [] then headers1
                            else Headers_set ''X-Final-Url'' location headers1))
                 else Headers_set ''X-Final-Url'' target headers1)
         else Response_new (resp_body upstream) (resp_status upstream)
                (Headers_set ''X-Final-Url''
                   (if resp_url upstream = [] then target else resp_url upstream)
                   headers1))"

text \<open>
  The body of the \<^verbatim>\<open>try\<close> block, lines 14-71. The result is the list of calls made to
  \<^verbatim>\<open>fetch\<close>, each with its URL and options, and either the error thrown (by \<^verbatim>\<open>new URL\<close> on
  line 14, by \<^verbatim>\<open>fetch\<close>, or by \<^verbatim>\<open>new Response\<close>) or the response returned.
\<close>

definition try_block :: "platform \<Rightarrow> request \<Rightarrow> (string \<times> fetch_init) list \<times> (error + response)"
  where
  "try_block P request =
     (case URL_new P (req_url request) of
        Inl e \<Rightarrow> ([], Inl e)
      | Inr u \<Rightarrow>
          (if \<not> startsWith (candidate u) ''http''
           then ([], Response_new (TextBody ''Invalid URL. Usage: /https://example.com'') 400
                       [(''Access-Control-Allow-Origin'', ''*'')])
           else
             (let manual = isManualMode request u;
                  target = targetUrl P u;
                  options = fetchOptions request manual
              in ([(target, options)],
                  (case fetch P target options of
                     Inl e \<Rightarrow> Inl e
                   | Inr upstream \<Rightarrow> compose manual target upstream)))))"

text \<open>
  The two responses that the handler builds outside the \<^verbatim>\<open>try\<close> block have the statuses 200
  and 500, which the constructor accepts (\<open>Response_new_accepts\<close> below); they are written as
  the objects built.
\<close>

definition worker_fetch :: "platform \<Rightarrow> request \<Rightarrow> (string \<times> fetch_init) list \<times> response" where
  \<comment> \<open>the exported \<^verbatim>\<open>fetch(request, env, ctx)\<close>, lines 2-79\<close>
  "worker_fetch P request =
     (if req_method request = ''OPTIONS''
      then ([], Response_object NullBody 200
                  [(''Access-Control-Allow-Origin'', ''*''),
                   (''Access-Control-Allow-Methods'', ''GET, HEAD, POST, OPTIONS''),
                   (''Access-Control-Allow-Headers'',
                    ''Content-Type, X-Final-Url, X-Proxy-Manual-Redirect'')])
      else (case try_block P request of
              (calls, Inr r) \<Rightarrow> (calls, r)
            | (calls, Inl e) \<Rightarrow>
                (calls, Response_object (TextBody (''Error: '' @ message e)) 500
                          [(''Access-Control-Allow-Origin'', ''*'')])))"

subsection \<open>A host for concrete runs\<close>

text \<open>
  A substitute host on which the handler can be run. Its URL parser splits a string at the
  first \<^verbatim>\<open>?\<close> and \<^verbatim>\<open>#\<close>, rejects a string without a scheme, as every URL parser does when
  there is no base URL, and knows the scheme, authority and path of the addresses listed in
  \<open>stub_addresses\<close>. Its \<^verbatim>\<open>fetch\<close> rejects a string without a scheme in the same way, gives the
  fixed answers of \<open>stub_answers\<close>, and fails for any other address.
\<close>

definition stub_addresses :: "(string \<times> string \<times> string) list" where
  "stub_addresses =
     [(''https://proxy.example/https://example.com/redirect'',
         ''https://proxy.example'', ''/https://example.com/redirect''),
      (''https://example.com/redirect'', ''https://example.com'', ''/redirect''),
      (''https://proxy.example/https://example.com/page'',
         ''https://proxy.example'', ''/https://example.com/page''),
      (''https://example.com/page'', ''https://example.com'', ''/page''),
      (''https://proxy.example/https://example.com/gone'',
         ''https://proxy.example'', ''/https://example.com/gone''),
      (''https://proxy.example/https://example.com/empty'',
         ''https://proxy.example'', ''/https://example.com/empty''),
      (''https://proxy.example/https://example.com/down'',
         ''https://proxy.example'', ''/https://example.com/down''),
      (''https://proxy.example/https://example.com/form'',
         ''https://proxy.example'', ''/https://example.com/form''),
      (''https://proxy.example/https://example.com/denied'',
         ''https://proxy.example'', ''/https://example.com/denied''),
      (''https://proxy.example/httpfoo'', ''https://proxy.example'', ''/httpfoo''),
      (''https://proxy.example/not-a-url'', ''https://proxy.example'', ''/not-a-url'')]"

definition stub_URL_new :: "string \<Rightarrow> error + url" where
  "stub_URL_new s =
     (let lead = takeWhile (\<lambda>c. c \<noteq> CHR ''?'' \<and> c \<noteq> CHR ''#'') s;
          tail = dropWhile (\<lambda>c. c \<noteq> CHR ''?'' \<and> c \<noteq> CHR ''#'') s;
          q = takeWhile (\<lambda>c. c \<noteq> CHR ''#'') tail;
          f = dropWhile (\<lambda>c. c \<noteq> CHR ''#'') tail
      in if CHR '':'' \<in> set lead
         then (case map_of stub_addresses lead of
                 None \<Rightarrow> Inl (Error ''Invalid URL'')
               | Some (front, path) \<Rightarrow>
                   Inr \<lparr>url_front = front, pathname = path,
                        query = (if q = [] then None else Some (drop 1 q)),
                        fragment = (if f = [] then None else Some (drop 1 f))\<rparr>)
         else Inl (Error ''Invalid URL''))"

definition stub_answers :: "(string \<times> (error + response)) list" where
  "stub_answers =
     [(''https://example.com/redirect?to=%2Ffinal'',
         Inr \<lparr>resp_status = 302,
              resp_headers = [(''Location'', ''https://example.com/final'')],
              resp_body = StreamBody ''moved'',
              resp_url = ''https://example.com/redirect?to=%2Ffinal''\<rparr>),
      (''https://example.com/page'',
         Inr \<lparr>resp_status = 200,
              resp_headers = [(''Content-Type'', ''text/html'')],
              resp_body = StreamBody ''<p>page</p>'',
              resp_url = ''https://example.com/page/''\<rparr>),
      (''https://example.com/page?__proxy_redirect_mode'',
         Inr \<lparr>resp_status = 200,
              resp_headers = [(''Content-Type'', ''text/html'')],
              resp_body = StreamBody ''<p>page</p>'',
              resp_url = ''https://example.com/page/?__proxy_redirect_mode''\<rparr>),
      (''https://example.com/page?__proxy%5Fredirect_mode=manual'',
         Inr \<lparr>resp_status = 200,
              resp_headers = [(''Content-Type'', ''text/html'')],
              resp_body = StreamBody ''<p>page</p>'',
              resp_url = ''https://example.com/page?__proxy%5Fredirect_mode=manual''\<rparr>),
      (''https://example.com/gone'',
         Inr \<lparr>resp_status = 302,
              resp_headers = [(''Server'', ''stub'')],
              resp_body = NullBody,
              resp_url = ''https://example.com/gone''\<rparr>),
      (''https://example.com/empty'',
         Inr \<lparr>resp_status = 302,
              resp_headers = [(''Location'', [])],
              resp_body = NullBody,
              resp_url = ''https://example.com/empty''\<rparr>),
      (''https://example.com/form'',
         Inr \<lparr>resp_status = 200,
              resp_headers = [(''Content-Type'', ''text/plain'')],
              resp_body = StreamBody ''ok'',
              resp_url = ''https://example.com/form''\<rparr>),
      (''https://example.com/down'', Inl (Error ''Network connection lost.'')),
      (''https://example.com/denied'',
         Inr \<lparr>resp_status = 999,
              resp_headers = [(''Content-Type'', ''text/html'')],
              resp_body = StreamBody ''denied'',
              resp_url = ''https://example.com/denied''\<rparr>)]"

definition stub_fetch :: "string \<Rightarrow> fetch_init \<Rightarrow> error + response" where
  "stub_fetch address options =
     (if CHR '':'' \<in> set (takeWhile (\<lambda>c. c \<noteq> CHR ''?'' \<and> c \<noteq> CHR ''#'') address)
      then (case map_of stub_answers address of
              None \<Rightarrow> Inl (Error ''Network connection lost.'')
            | Some answer \<Rightarrow> answer)
      else Inl (Error ''Invalid URL''))"

definition stub :: platform where
  "stub = \<lparr>URL_new = stub_URL_new, fetch = stub_fetch\<rparr>"

definition inbound :: "string \<Rightarrow> string \<Rightarrow> headers \<Rightarrow> body \<Rightarrow> request" where
  "inbound m address hs b =
     \<lparr>req_method = m, req_url = address, req_headers = hs, req_body = b\<rparr>"

section \<open>Properties of the host objects\<close>

subsection \<open>Header lists\<close>

lemma same_name_refl: "same_name a a"
  by (simp add: same_name_def)

lemma same_name_trans: "same_name a b \<Longrightarrow> same_name b c \<Longrightarrow> same_name a c"
  by (simp add: same_name_def)

lemma same_name_sym: "same_name a b \<Longrightarrow> same_name b a"
  by (simp add: same_name_def)

lemma Headers_get_set_same: "Headers_get name (Headers_set name v hs) = Some v"
proof (induction hs)
  case Nil
  show ?case by (simp add: Headers_get_def same_name_refl)
next
  case (Cons h hs)
  have "filter (\<lambda>k. same_name (fst k) name) (filter (\<lambda>k. \<not> same_name (fst k) name) hs) = []"
    by (induction hs) simp_all
  with Cons show ?case by (simp add: Headers_get_def del: filter_filter)
qed

lemma filter_other_name:
  assumes "\<not> same_name other name"
  shows "filter (\<lambda>k. same_name (fst k) other) (filter (\<lambda>k. \<not> same_name (fst k) name) hs)
    = filter (\<lambda>k. same_name (fst k) other) hs"
proof (induction hs)
  case Nil
  show ?case by simp
next
  case (Cons h hs)
  have "same_name (fst h) other \<Longrightarrow> \<not> same_name (fst h) name"
    using assms same_name_sym same_name_trans by blast
  with Cons show ?case by (simp del: filter_filter)
qed

lemma filter_Headers_set_other:
  assumes "\<not> same_name other name"
  shows "filter (\<lambda>k. same_name (fst k) other) (Headers_set name v hs)
    = filter (\<lambda>k. same_name (fst k) other) hs"
proof (induction hs)
  case Nil
  have "\<not> same_name name other"
    using assms same_name_sym by blast
  then show ?case by simp
next
  case (Cons h hs)
  have "same_name (fst h) name \<Longrightarrow> \<not> same_name (fst h) other"
    using assms same_name_sym same_name_trans by blast
  with Cons show ?case by (simp add: filter_other_name [OF assms] del: filter_filter)
qed

lemma Headers_get_set_other:
  "\<not> same_name other name \<Longrightarrow> Headers_get other (Headers_set name v hs) = Headers_get other hs"
  by (simp add: Headers_get_def filter_Headers_set_other)

lemma Headers_get_Response_object:
  assumes "\<not> same_name ''content-type'' name"
  shows "Headers_get name (resp_headers (Response_object b st hs)) = Headers_get name hs"
  using assms by (cases b) (simp_all add: Response_object_def Headers_get_def)

lemma Response_new_accepts:
  "200 \<le> st \<Longrightarrow> st \<le> 599 \<Longrightarrow> Response_new b st hs = Inr (Response_object b st hs)"
  by (simp add: Response_new_def)

lemma Response_new_throws:
  "st < 200 \<or> 599 < st \<Longrightarrow> Response_new b st hs = Inl range_error"
  by (simp add: Response_new_def)

subsection \<open>Search parameters: parsing the serialised list gives the list back\<close>

lemma of_char_hex_digit:
  "d < 16 \<Longrightarrow> (of_char (hex_digit d) :: nat) = (if d < 10 then 48 + d else 55 + d)"
  by (simp add: hex_digit_def)

lemma hex_digit_is_hex: "d < 16 \<Longrightarrow> is_hex (hex_digit d)"
  by (simp add: is_hex_def hex_digit_def Let_def)

lemma hex_val_digit: "d < 16 \<Longrightarrow> hex_val (hex_digit d) = d"
  by (simp add: hex_val_def hex_digit_def Let_def)

lemma hex_digit_plain:
  assumes "d < 16"
  shows "hex_digit d \<noteq> CHR ''+'' \<and> hex_digit d \<noteq> CHR ''&'' \<and> hex_digit d \<noteq> CHR ''=''"
proof -
  have "(of_char (hex_digit d) :: nat) \<noteq> 43 \<and> (of_char (hex_digit d) :: nat) \<noteq> 38
      \<and> (of_char (hex_digit d) :: nat) \<noteq> 61"
    using assms by (simp add: of_char_hex_digit)
  then show ?thesis by auto
qed

lemma nibbles_small: "(of_char c :: nat) div 16 < 16 \<and> (of_char c :: nat) mod 16 < 16"
proof -
  have "(of_char c :: nat) < 16 * 16"
    using nat_of_char_less_256 [of c] by simp
  then have "(of_char c :: nat) div 16 < 16"
    by (rule less_mult_imp_div_less)
  then show ?thesis by simp
qed

lemma percent_decode_plain: "a \<noteq> CHR ''%'' \<Longrightarrow> percent_decode (a # r) = a # percent_decode r"
  by (cases r rule: percent_decode.cases) simp_all

lemma keep_plain:
  "urlencoded_keep c \<Longrightarrow>
     c \<noteq> CHR ''%'' \<and> c \<noteq> CHR ''+'' \<and> c \<noteq> CHR ''&'' \<and> c \<noteq> CHR ''=''"
  by (auto simp: urlencoded_keep_def Let_def)

lemma raw_decode_byte:
  "percent_decode (map plus_to_space (urlencoded_byte c @ r))
     = c # percent_decode (map plus_to_space r)"
proof -
  have d: "(of_char c :: nat) div 16 < 16" "(of_char c :: nat) mod 16 < 16"
    using nibbles_small [of c] by simp_all
  consider (keep) "urlencoded_keep c"
    | (space) "\<not> urlencoded_keep c" "c = CHR '' ''"
    | (escape) "\<not> urlencoded_keep c" "c \<noteq> CHR '' ''"
    by blast
  then show ?thesis
  proof cases
    case keep
    then show ?thesis
      using keep_plain [of c]
      by (simp add: urlencoded_byte_def plus_to_space_def percent_decode_plain)
  next
    case space
    then show ?thesis
      by (simp add: urlencoded_byte_def plus_to_space_def percent_decode_plain)
  next
    case escape
    then show ?thesis
      using d hex_digit_plain [of "of_char c div 16"] hex_digit_plain [of "of_char c mod 16"]
      by (simp add: urlencoded_byte_def plus_to_space_def hex_digit_is_hex hex_val_digit)
  qed
qed

lemma raw_decode_urlencoded: "percent_decode (map plus_to_space (urlencoded_string s)) = s"
proof (induction s)
  case Nil
  show ?case by (simp add: urlencoded_string_def)
next
  case (Cons c s)
  have "urlencoded_string (c # s) = urlencoded_byte c @ urlencoded_string s"
    by (simp add: urlencoded_string_def)
  with Cons raw_decode_byte [of c "urlencoded_string s"] show ?case by simp
qed

lemma form_decode_urlencoded: "form_decode (urlencoded_string s) = utf8_sanitize s"
  by (simp add: form_decode_def raw_decode_urlencoded)

text \<open>Reading as UTF-8 changes nothing in what has been read as UTF-8 before.\<close>

lemma utf8_continuation_le: "utf8_continuation k lo hi bs \<le> length bs"
  by (induction k lo hi bs rule: utf8_continuation.induct) simp_all

lemma utf8_continuation_stable:
  "utf8_continuation k lo hi bs = k \<Longrightarrow> utf8_continuation k lo hi (take k bs @ rest) = k"
  by (induction k lo hi bs rule: utf8_continuation.induct) (simp_all split: if_splits)

lemma utf8_sanitize_unit:
  assumes "\<not> (of_char b :: nat) < 128" and "utf8_lead b = Some (needed, lo, hi)"
    and "utf8_continuation needed lo hi bs = needed"
  shows "utf8_sanitize (b # take needed bs @ rest) = b # take needed bs @ utf8_sanitize rest"
proof -
  have len: "length (take needed bs) = needed"
    using utf8_continuation_le [of needed lo hi bs] assms(3) by simp
  have "utf8_continuation needed lo hi (take needed bs @ rest) = needed"
    using assms(3) by (rule utf8_continuation_stable)
  with assms(1,2) len show ?thesis by simp
qed

lemma utf8_sanitize_replacement:
  "utf8_sanitize (replacement @ rest) = replacement @ utf8_sanitize rest"
  by (simp add: replacement_def utf8_lead_def numeral_2_eq_2)

lemma utf8_sanitize_idem: "utf8_sanitize (utf8_sanitize s) = utf8_sanitize s"
proof (induction s rule: utf8_sanitize.induct)
  case 1
  show ?case by simp
next
  case (2 b bs)
  show ?case
  proof (cases "(of_char b :: nat) < 128")
    case True
    with 2 show ?thesis by simp
  next
    case False
    show ?thesis
    proof (cases "utf8_lead b")
      case None
      with False 2 show ?thesis by (simp add: utf8_sanitize_replacement)
    next
      case (Some t)
      obtain needed lo hi where t: "t = (needed, lo, hi)"
        by (cases t) auto
      let ?m = "utf8_continuation needed lo hi bs"
      have ih: "utf8_sanitize (utf8_sanitize (drop ?m bs)) = utf8_sanitize (drop ?m bs)"
        using 2(3) [OF False Some t [symmetric]] by simp
      show ?thesis
      proof (cases "?m = needed")
        case True
        then have "utf8_sanitize (b # bs) = b # take needed bs @ utf8_sanitize (drop needed bs)"
          using False Some t by simp
        moreover have "utf8_sanitize (b # take needed bs @ utf8_sanitize (drop needed bs))
            = b # take needed bs @ utf8_sanitize (utf8_sanitize (drop needed bs))"
          using False Some t True by (intro utf8_sanitize_unit) simp_all
        ultimately show ?thesis using ih True by simp
      next
        case no: False
        then have "utf8_sanitize (b # bs) = replacement @ utf8_sanitize (drop ?m bs)"
          using False Some t by simp
        then show ?thesis using ih by (simp add: utf8_sanitize_replacement)
      qed
    qed
  qed
qed

lemma form_decode_sanitized: "utf8_sanitize (form_decode s) = form_decode s"
  by (simp add: form_decode_def utf8_sanitize_idem)

lemma urlencoded_byte_plain:
  "CHR ''&'' \<notin> set (urlencoded_byte c) \<and> CHR ''='' \<notin> set (urlencoded_byte c)"
proof -
  have d: "(of_char c :: nat) div 16 < 16" "(of_char c :: nat) mod 16 < 16"
    using nibbles_small [of c] by simp_all
  show ?thesis
    using keep_plain [of c] hex_digit_plain [OF d(1)] hex_digit_plain [OF d(2)]
    by (auto simp: urlencoded_byte_def)
qed

lemma urlencoded_string_plain:
  "CHR ''&'' \<notin> set (urlencoded_string s) \<and> CHR ''='' \<notin> set (urlencoded_string s)"
  using urlencoded_byte_plain by (induction s) (auto simp: urlencoded_string_def)

lemma split_on_none: "sep \<notin> set a \<Longrightarrow> split_on sep a = [a]"
  by (induction a) auto

lemma split_on_first: "sep \<notin> set a \<Longrightarrow> split_on sep (a @ sep # b) = a # split_on sep b"
  by (induction a) auto

lemma parse_pair_serialized:
  "parse_pair (urlencoded_string n @ ''='' @ urlencoded_string v)
     = (utf8_sanitize n, utf8_sanitize v)"
proof -
  have "\<forall>c \<in> set (urlencoded_string n). c \<noteq> CHR ''=''"
    using urlencoded_string_plain [of n] by blast
  then have "takeWhile (\<lambda>c. c \<noteq> CHR ''='') (urlencoded_string n @ ''='' @ urlencoded_string v)
        = urlencoded_string n"
    and "dropWhile (\<lambda>c. c \<noteq> CHR ''='') (urlencoded_string n @ ''='' @ urlencoded_string v)
        = ''='' @ urlencoded_string v"
    by (simp_all add: takeWhile_tail dropWhile_append)
  then show ?thesis
    by (simp add: parse_pair_def form_decode_urlencoded)
qed

lemma urlencoded_roundtrip:
  "urlencoded_parse (urlencoded_serialize xs)
     = map (\<lambda>p. (utf8_sanitize (fst p), utf8_sanitize (snd p))) xs"
proof (induction xs rule: urlencoded_serialize.induct)
  case 1
  show ?case by (simp add: urlencoded_parse_def)
next
  case (2 n v)
  have "CHR ''&'' \<notin> set (urlencoded_string n @ ''='' @ urlencoded_string v)"
    using urlencoded_string_plain by simp
  then have "split_on (CHR ''&'') (urlencoded_string n @ ''='' @ urlencoded_string v)
      = [urlencoded_string n @ ''='' @ urlencoded_string v]"
    by (rule split_on_none)
  then show ?case
    using parse_pair_serialized [of n v] by (simp add: urlencoded_parse_def)
next
  case (3 n v p rest)
  let ?h = "urlencoded_string n @ ''='' @ urlencoded_string v"
  have "CHR ''&'' \<notin> set ?h"
    using urlencoded_string_plain by simp
  then have "split_on (CHR ''&'') (?h @ CHR ''&'' # urlencoded_serialize (p # rest))
      = ?h # split_on (CHR ''&'') (urlencoded_serialize (p # rest))"
    by (rule split_on_first)
  moreover have "?h \<noteq> []" by simp
  ultimately show ?case
    using 3 parse_pair_serialized [of n v] by (simp add: urlencoded_parse_def)
qed

lemma urlencoded_parse_sanitized:
  assumes "p \<in> set (urlencoded_parse s)"
  shows "(utf8_sanitize (fst p), utf8_sanitize (snd p)) = p"
proof -
  obtain piece where "p = parse_pair piece"
    using assms by (auto simp: urlencoded_parse_def)
  then show ?thesis
    by (simp add: parse_pair_def Let_def form_decode_sanitized)
qed

lemma searchParams_after_delete:
  "searchParams (searchParams_delete name u) = filter (\<lambda>p. fst p \<noteq> name) (searchParams u)"
proof -
  let ?rest = "filter (\<lambda>p. fst p \<noteq> name) (searchParams u)"
  have "searchParams (searchParams_delete name u) = urlencoded_parse (urlencoded_serialize ?rest)"
    by (simp add: searchParams_def searchParams_delete_def Let_def)
  also have "\<dots> = map (\<lambda>p. (utf8_sanitize (fst p), utf8_sanitize (snd p))) ?rest"
    by (rule urlencoded_roundtrip)
  also have "\<dots> = ?rest"
  proof (rule map_idI)
    fix p
    assume "p \<in> set ?rest"
    then have "p \<in> set (urlencoded_parse (case query u of None \<Rightarrow> [] | Some q \<Rightarrow> q))"
      by (simp add: searchParams_def)
    then show "(utf8_sanitize (fst p), utf8_sanitize (snd p)) = p"
      by (rule urlencoded_parse_sanitized)
  qed
  finally show ?thesis .
qed

text \<open>An escape that is not UTF-8 comes back as the escape of U+FFFD.\<close>

lemma ill_formed_escape_is_replaced:
  "URL_toString (searchParams_delete ''__proxy_redirect_mode''
      \<lparr>url_front = ''https://example.com'', pathname = ''/page'',
       query = Some ''a=%FF&__proxy_redirect_mode=manual'', fragment = None\<rparr>)
     = ''https://example.com/page?a=%EF%BF%BD''"
  by code_simp

lemma searchParams_get_after_delete:
  "searchParams_get name (searchParams_delete name u) = None"
proof -
  have "map_of (filter (\<lambda>p. fst p \<noteq> name) xs) name = None" for xs :: "(string \<times> string) list"
    by (induction xs) simp_all
  then show ?thesis
    by (simp add: searchParams_get_def searchParams_after_delete)
qed

section \<open>Properties of the handler\<close>

lemma content_type_absent:
  "Headers_get ''Content-Type'' [(''Access-Control-Allow-Origin'', ''*'')] = None"
  by (simp add: Headers_get_def same_name_def ascii_lower_def)

lemma text_response:
  "Response_object (TextBody t) st [(''Access-Control-Allow-Origin'', ''*'')] =
     \<lparr>resp_status = st,
      resp_headers = [(''Access-Control-Allow-Origin'', ''*''),
                      (''content-type'', ''text/plain;charset=UTF-8'')],
      resp_body = TextBody t,
      resp_url = []\<rparr>"
  by (simp add: Response_object_def content_type_absent)

lemma worker_fetch_dispatch:
  assumes "req_method r \<noteq> ''OPTIONS''" and "URL_new P (req_url r) = Inr u"
    and "startsWith (candidate u) ''http''"
  shows "worker_fetch P r =
    ([(targetUrl P u, fetchOptions r (isManualMode r u))],
     (case fetch P (targetUrl P u) (fetchOptions r (isManualMode r u)) of
        Inl e \<Rightarrow>
          Response_object (TextBody (''Error: '' @ message e)) 500
            [(''Access-Control-Allow-Origin'', ''*'')]
      | Inr upstream \<Rightarrow>
          (case compose (isManualMode r u) (targetUrl P u) upstream of
             Inl e \<Rightarrow>
               Response_object (TextBody (''Error: '' @ message e)) 500
                 [(''Access-Control-Allow-Origin'', ''*'')]
           | Inr out \<Rightarrow> out)))"
  using assms
  by (simp add: worker_fetch_def try_block_def Let_def split: sum.splits)

lemma names_differ:
  "\<not> same_name ''Access-Control-Allow-Origin'' ''X-Final-Url''"
  "\<not> same_name ''Access-Control-Allow-Origin'' ''Access-Control-Expose-Headers''"
  "\<not> same_name ''X-Final-Url'' ''Access-Control-Allow-Origin''"
  "\<not> same_name ''X-Final-Url'' ''Access-Control-Expose-Headers''"
  "\<not> same_name ''content-type'' ''Access-Control-Allow-Origin''"
  "\<not> same_name ''content-type'' ''X-Final-Url''"
  by (simp_all add: same_name_def ascii_lower_def)

lemma compose_returns:
  assumes "200 \<le> resp_status upstream" and "resp_status upstream \<le> 599"
  shows "\<exists>out. compose manual target upstream = Inr out"
  using assms by (simp add: compose_def Let_def Response_new_def)

lemma compose_throws:
  assumes "resp_status upstream < 200 \<or> 599 < resp_status upstream"
  shows "compose manual target upstream = Inl range_error"
  using assms by (auto simp: compose_def Let_def Response_new_def)

lemma compose_status_body:
  assumes "compose manual target upstream = Inr out"
  shows "resp_status out = resp_status upstream \<and> resp_body out = resp_body upstream"
  using assms
  by (auto simp: compose_def Let_def Response_new_def Response_object_def split: if_splits)

lemma compose_allow_origin:
  assumes "compose manual target upstream = Inr out"
  shows "Headers_get ''Access-Control-Allow-Origin'' (resp_headers out) = Some ''*''"
  using assms
  by (auto simp: compose_def Let_def Response_new_def Headers_get_Response_object names_differ
      Headers_get_set_other Headers_get_set_same split: if_splits option.splits)

lemma compose_follow:
  assumes "compose False target upstream = Inr out"
  shows "Headers_get ''X-Final-Url'' (resp_headers out)
     = Some (if resp_url upstream = [] then target else resp_url upstream)"
  using assms
  by (auto simp: compose_def Let_def Response_new_def Headers_get_Response_object names_differ
      Headers_get_set_same split: if_splits)

lemma compose_manual_location:
  assumes "compose True target upstream = Inr out"
    and "300 \<le> resp_status upstream" and "resp_status upstream < 400"
    and "Headers_get ''Location'' (resp_headers upstream) = Some location"
    and "location \<noteq> []"
  shows "Headers_get ''X-Final-Url'' (resp_headers out) = Some location"
  using assms
  by (auto simp: compose_def Let_def Response_new_def Headers_get_Response_object names_differ
      Headers_get_set_same split: if_splits)

lemma compose_manual_other_status:
  assumes "compose True target upstream = Inr out"
    and "resp_status upstream < 300 \<or> 400 \<le> resp_status upstream"
  shows "Headers_get ''X-Final-Url'' (resp_headers out) = Some target"
  using assms
  by (auto simp: compose_def Let_def Response_new_def Headers_get_Response_object names_differ
      Headers_get_set_same split: if_splits)

lemma compose_manual_no_location:
  assumes "compose True target upstream = Inr out"
    and "300 \<le> resp_status upstream" and "resp_status upstream < 400"
    and "Headers_get ''Location'' (resp_headers upstream) = None
         \<or> Headers_get ''Location'' (resp_headers upstream) = Some []"
  shows "Headers_get ''X-Final-Url'' (resp_headers out)
     = Headers_get ''X-Final-Url'' (resp_headers upstream)"
  using assms
  by (auto simp: compose_def Let_def Response_new_def Headers_get_Response_object names_differ
      Headers_get_set_other split: if_splits)

text \<open>
  The errors that the \<^verbatim>\<open>try\<close> block throws: the one of \<^verbatim>\<open>new URL(request.url)\<close>, the one of
  \<^verbatim>\<open>fetch\<close>, and the one of \<^verbatim>\<open>new Response\<close> when the response is composed. The stripping step
  throws none: when the candidate does not parse, the handler goes on with it as it is.
\<close>

lemma try_block_throws:
  "snd (try_block P r) = Inl e \<longleftrightarrow>
     URL_new P (req_url r) = Inl e
     \<or> (\<exists>u. URL_new P (req_url r) = Inr u \<and> startsWith (candidate u) ''http''
            \<and> (fetch P (targetUrl P u) (fetchOptions r (isManualMode r u)) = Inl e
                \<or> (\<exists>upstream.
                      fetch P (targetUrl P u) (fetchOptions r (isManualMode r u)) = Inr upstream
                      \<and> compose (isManualMode r u) (targetUrl P u) upstream = Inl e)))"
  by (auto simp: try_block_def Let_def Response_new_def split: sum.splits)

lemma stripping_failure_is_caught:
  "URL_new P (candidate u) = Inl e \<Longrightarrow> targetUrl P u = candidate u"
  by (simp add: targetUrl_def strip_mode_param_def)

lemma manual_mode_non_redirect_final_url:
  assumes "req_method r \<noteq> ''OPTIONS''" and "URL_new P (req_url r) = Inr u"
    and "startsWith (candidate u) ''http''"
    and "isManualMode r u"
    and "fetch P (targetUrl P u) (fetchOptions r True) = Inr upstream"
    and "200 \<le> resp_status upstream" and "resp_status upstream \<le> 599"
    and "resp_status upstream < 300 \<or> 400 \<le> resp_status upstream"
  shows "Headers_get ''X-Final-Url'' (resp_headers (snd (worker_fetch P r)))
      = Some (targetUrl P u)"
proof -
  obtain out where out: "compose True (targetUrl P u) upstream = Inr out"
    using compose_returns [OF assms(6,7)] by blast
  with assms(1-5) have "snd (worker_fetch P r) = out"
    by (simp add: worker_fetch_dispatch)
  then show ?thesis
    using compose_manual_other_status [OF out assms(8)] by simp
qed

lemma manual_mode_redirect_without_location:
  assumes "req_method r \<noteq> ''OPTIONS''" and "URL_new P (req_url r) = Inr u"
    and "startsWith (candidate u) ''http''"
    and "isManualMode r u"
    and "fetch P (targetUrl P u) (fetchOptions r True) = Inr upstream"
    and "300 \<le> resp_status upstream" and "resp_status upstream < 400"
    and "Headers_get ''Location'' (resp_headers upstream) = None
         \<or> Headers_get ''Location'' (resp_headers upstream) = Some []"
  shows "Headers_get ''X-Final-Url'' (resp_headers (snd (worker_fetch P r)))
      = Headers_get ''X-Final-Url'' (resp_headers upstream)"
proof -
  have "200 \<le> resp_status upstream" and "resp_status upstream \<le> 599"
    using assms(6,7) by simp_all
  then obtain out where out: "compose True (targetUrl P u) upstream = Inr out"
    using compose_returns by blast
  with assms(1-5) have "snd (worker_fetch P r) = out"
    by (simp add: worker_fetch_dispatch)
  then show ?thesis
    using compose_manual_no_location [OF out assms(6,7,8)] by simp
qed

section \<open>The properties claimed of the handler\<close>

text \<open>
  C8. A request with method \<^verbatim>\<open>OPTIONS\<close> is answered, whatever its URL, headers and body and
  whatever the host, with status 200, no body and exactly the three CORS headers; no call to
  \<^verbatim>\<open>fetch\<close> is made.
\<close>

theorem preflight_response:
  assumes "req_method r = ''OPTIONS''"
  shows "worker_fetch P r =
    ([], \<lparr>resp_status = 200,
          resp_headers =
            [(''Access-Control-Allow-Origin'', ''*''),
             (''Access-Control-Allow-Methods'', ''GET, HEAD, POST, OPTIONS''),
             (''Access-Control-Allow-Headers'',
              ''Content-Type, X-Final-Url, X-Proxy-Manual-Redirect'')],
          resp_body = NullBody,
          resp_url = []\<rparr>)"
  using assms by (simp add: worker_fetch_def Response_object_def)

theorem preflight_response_witness:
  "worker_fetch stub (inbound ''OPTIONS'' ''https://proxy.example/not-a-url'' [] NullBody) =
    ([], \<lparr>resp_status = 200,
          resp_headers =
            [(''Access-Control-Allow-Origin'', ''*''),
             (''Access-Control-Allow-Methods'', ''GET, HEAD, POST, OPTIONS''),
             (''Access-Control-Allow-Headers'',
              ''Content-Type, X-Final-Url, X-Proxy-Manual-Redirect'')],
          resp_body = NullBody,
          resp_url = []\<rparr>)"
proof -
  have "req_method (inbound ''OPTIONS'' ''https://proxy.example/not-a-url'' [] NullBody)
      = ''OPTIONS''"
    by (simp add: inbound_def)
  then show ?thesis by (rule preflight_response)
qed

text \<open>
  C4, as the code has it. The handler tests the candidate target, the path without its leading
  slash followed by the query string, for the four characters \<^verbatim>\<open>http\<close>. Every request other
  than \<^verbatim>\<open>OPTIONS\<close> whose candidate does not start with them is answered with status 400 and
  the plain-text usage hint, whatever its method and headers, and no call to \<^verbatim>\<open>fetch\<close> is
  made.
\<close>

theorem invalid_target_rejected:
  assumes "req_method r \<noteq> ''OPTIONS''" and "URL_new P (req_url r) = Inr u"
    and "\<not> startsWith (candidate u) ''http''"
  shows "worker_fetch P r =
    ([], \<lparr>resp_status = 400,
          resp_headers = [(''Access-Control-Allow-Origin'', ''*''),
                          (''content-type'', ''text/plain;charset=UTF-8'')],
          resp_body = TextBody ''Invalid URL. Usage: /https://example.com'',
          resp_url = []\<rparr>)"
  using assms by (simp add: worker_fetch_def try_block_def Response_new_def text_response)

theorem invalid_target_rejected_witness:
  "worker_fetch stub (inbound ''GET'' ''https://proxy.example/not-a-url'' [] NullBody) =
    ([], \<lparr>resp_status = 400,
          resp_headers = [(''Access-Control-Allow-Origin'', ''*''),
                          (''content-type'', ''text/plain;charset=UTF-8'')],
          resp_body = TextBody ''Invalid URL. Usage: /https://example.com'',
          resp_url = []\<rparr>)"
proof -
  let ?r = "inbound ''GET'' ''https://proxy.example/not-a-url'' [] NullBody"
  let ?u = "\<lparr>url_front = ''https://proxy.example'', pathname = ''/not-a-url'',
             query = None, fragment = None\<rparr>"
  have m: "req_method ?r \<noteq> ''OPTIONS''"
    by (simp add: inbound_def)
  have u: "URL_new stub (req_url ?r) = Inr ?u"
    by code_simp
  have c: "\<not> startsWith (candidate ?u) ''http''"
    by code_simp
  show ?thesis
    using invalid_target_rejected [OF m u c] .
qed

text \<open>
  The path \<^verbatim>\<open>/httpfoo\<close> starts with neither \<^verbatim>\<open>http://\<close> nor \<^verbatim>\<open>https://\<close>, yet the request is
  not answered with 400: \<^verbatim>\<open>fetch\<close> is called with \<^verbatim>\<open>httpfoo\<close>, and its failure gives 500.
\<close>

theorem scheme_prefix_counterexample:
  "URL_new stub ''https://proxy.example/httpfoo'' =
     Inr \<lparr>url_front = ''https://proxy.example'', pathname = ''/httpfoo'',
          query = None, fragment = None\<rparr>
   \<and> \<not> startsWith ''httpfoo'' ''http://'' \<and> \<not> startsWith ''httpfoo'' ''https://''
   \<and> resp_status (snd (worker_fetch stub
         (inbound ''GET'' ''https://proxy.example/httpfoo'' [] NullBody))) = 500
   \<and> map fst (fst (worker_fetch stub
         (inbound ''GET'' ''https://proxy.example/httpfoo'' [] NullBody))) = [''httpfoo'']"
  by code_simp

text \<open>
  C1, as the code has it. Take a request other than \<^verbatim>\<open>OPTIONS\<close> whose candidate target starts
  with \<^verbatim>\<open>http\<close> and contains the text \<^verbatim>\<open>__proxy_redirect_mode=\<close>. If the candidate parses as a
  URL, the one URL passed to \<^verbatim>\<open>fetch\<close> is that URL serialised after every parameter named
  \<^verbatim>\<open>__proxy_redirect_mode\<close> has been deleted, and its query has no parameter of that name. If
  the candidate does not parse, it is passed to \<^verbatim>\<open>fetch\<close> unchanged.
\<close>

theorem reserved_param_stripped_when_target_reparses:
  assumes "req_method r \<noteq> ''OPTIONS''" and "URL_new P (req_url r) = Inr u"
    and "startsWith (candidate u) ''http''"
    and "str_includes (candidate u) ''__proxy_redirect_mode=''"
  shows "case URL_new P (candidate u) of
           Inr targetUrlObj \<Rightarrow>
             map fst (fst (worker_fetch P r)) =
               [URL_toString (searchParams_delete ''__proxy_redirect_mode'' targetUrlObj)]
             \<and> searchParams_get ''__proxy_redirect_mode''
                 (searchParams_delete ''__proxy_redirect_mode'' targetUrlObj) = None
         | Inl e \<Rightarrow> map fst (fst (worker_fetch P r)) = [candidate u]"
  using assms
  by (simp add: worker_fetch_dispatch targetUrl_def strip_mode_param_def
      searchParams_get_after_delete split: sum.splits)

theorem reserved_param_stripped_when_target_reparses_witness:
  "map fst (fst (worker_fetch stub
      (inbound ''GET''
         ''https://proxy.example/https://example.com/redirect?to=/final&__proxy_redirect_mode=manual''
         [] NullBody)))
     = [''https://example.com/redirect?to=%2Ffinal'']"
proof -
  let ?r = "inbound ''GET''
    ''https://proxy.example/https://example.com/redirect?to=/final&__proxy_redirect_mode=manual''
    [] NullBody"
  let ?u = "\<lparr>url_front = ''https://proxy.example'', pathname = ''/https://example.com/redirect'',
             query = Some ''to=/final&__proxy_redirect_mode=manual'', fragment = None\<rparr>"
  let ?t = "\<lparr>url_front = ''https://example.com'', pathname = ''/redirect'',
             query = Some ''to=/final&__proxy_redirect_mode=manual'', fragment = None\<rparr>"
  have m: "req_method ?r \<noteq> ''OPTIONS''"
    by (simp add: inbound_def)
  have u: "URL_new stub (req_url ?r) = Inr ?u"
    by code_simp
  have h: "startsWith (candidate ?u) ''http''"
    by code_simp
  have i: "str_includes (candidate ?u) ''__proxy_redirect_mode=''"
    by code_simp
  have t: "URL_new stub (candidate ?u) = Inr ?t"
    by code_simp
  have s: "URL_toString (searchParams_delete ''__proxy_redirect_mode'' ?t)
      = ''https://example.com/redirect?to=%2Ffinal''"
    by code_simp
  show ?thesis
    using reserved_param_stripped_when_target_reparses [OF m u h i] t s by simp
qed

text \<open>
  Two requests whose URL passed to \<^verbatim>\<open>fetch\<close> has the reserved parameter. The candidate
  \<^verbatim>\<open>httpfoo?__proxy_redirect_mode=manual\<close> has no scheme and does not parse as a URL, so it is
  passed on as it is. The candidate \<^verbatim>\<open>https://example.com/page?__proxy_redirect_mode\<close> names the
  parameter without \<^verbatim>\<open>=\<close>, so the test on line 27 fails and nothing is stripped: the URL
  passed on still has a parameter of that name, with the empty value.
\<close>

theorem reserved_param_reaches_fetch_counterexample:
  "str_includes ''httpfoo?__proxy_redirect_mode=manual'' ''__proxy_redirect_mode=''
   \<and> map fst (fst (worker_fetch stub
         (inbound ''GET'' ''https://proxy.example/httpfoo?__proxy_redirect_mode=manual''
            [] NullBody)))
       = [''httpfoo?__proxy_redirect_mode=manual'']
   \<and> map fst (fst (worker_fetch stub
         (inbound ''GET''
            ''https://proxy.example/https://example.com/page?__proxy_redirect_mode''
            [] NullBody)))
       = [''https://example.com/page?__proxy_redirect_mode'']
   \<and> map_sum message (searchParams_get ''__proxy_redirect_mode'')
        (URL_new stub ''https://example.com/page?__proxy_redirect_mode'')
       = Inr (Some [])"
  by code_simp

text \<open>
  The test for the text \<^verbatim>\<open>__proxy_redirect_mode=\<close> does not see a parameter whose name is
  written with a percent escape: it selects manual mode and is forwarded as it is.
\<close>

lemma encoded_mode_param_is_forwarded:
  "fst (worker_fetch stub
      (inbound ''GET''
         ''https://proxy.example/https://example.com/page?__proxy%5Fredirect_mode=manual''
         [] NullBody))
     = [(''https://example.com/page?__proxy%5Fredirect_mode=manual'',
         fetchOptions (inbound ''GET'' [] [] NullBody) True)]
   \<and> map_sum message (searchParams_get ''__proxy_redirect_mode'')
        (URL_new stub ''https://example.com/page?__proxy%5Fredirect_mode=manual'')
       = Inr (Some ''manual'')"
  by code_simp

text \<open>
  C2. In manual mode the handler sets \<^verbatim>\<open>X-Final-Url\<close> to the target for an upstream status
  outside 300..399 (\<open>manual_mode_non_redirect_final_url\<close> above, for the statuses that the
  \<^verbatim>\<open>Response\<close> constructor accepts). For a status in 300..399 without a \<^verbatim>\<open>Location\<close> header it
  sets nothing: the run below, with the manual-mode header and an upstream answer 302 that
  has no \<^verbatim>\<open>Location\<close>, ends without any \<^verbatim>\<open>X-Final-Url\<close> in the response, where the target
  \<^verbatim>\<open>https://example.com/gone\<close> was to be reported.
\<close>

theorem manual_redirect_without_location_has_no_final_url:
  "fst (worker_fetch stub
      (inbound ''GET'' ''https://proxy.example/https://example.com/gone''
         [(''X-Proxy-Manual-Redirect'', ''true'')] NullBody))
     = [(''https://example.com/gone'', fetchOptions (inbound ''GET'' [] [] NullBody) True)]
   \<and> stub_fetch ''https://example.com/gone'' (fetchOptions (inbound ''GET'' [] [] NullBody) True)
     = Inr \<lparr>resp_status = 302, resp_headers = [(''Server'', ''stub'')],
            resp_body = NullBody, resp_url = ''https://example.com/gone''\<rparr>
   \<and> Headers_get ''X-Final-Url'' (resp_headers (snd (worker_fetch stub
         (inbound ''GET'' ''https://proxy.example/https://example.com/gone''
            [(''X-Proxy-Manual-Redirect'', ''true'')] NullBody))))
     = None"
  by code_simp

text \<open>
  C3, as the code has it. For every request other than \<^verbatim>\<open>OPTIONS\<close> whose candidate target
  starts with \<^verbatim>\<open>http\<close>, exactly one outbound request is issued: to the target, with the method
  of the inbound request, the fixed Googlebot user agent as its only header, the redirect
  policy of the mode, and no body. The body of the inbound request is never forwarded.
\<close>

theorem outbound_request_shape:
  assumes "req_method r \<noteq> ''OPTIONS''" and "URL_new P (req_url r) = Inr u"
    and "startsWith (candidate u) ''http''"
  shows "fst (worker_fetch P r) =
    [(targetUrl P u,
      \<lparr>init_method = req_method r,
       init_headers =
         [(''User-Agent'',
           ''Mozilla/5.0 (compatible; Googlebot/2.1; +http://www.google.com/bot.html)'')],
       init_body = None,
       init_redirect = (if isManualMode r u then ''manual'' else ''follow'')\<rparr>)]"
  using assms by (simp add: worker_fetch_dispatch fetchOptions_def)

theorem outbound_request_shape_witness:
  "fst (worker_fetch stub
      (inbound ''POST'' ''https://proxy.example/https://example.com/form''
         [(''Content-Type'', ''text/plain'')] (StreamBody ''payload''))) =
    [(''https://example.com/form'',
      \<lparr>init_method = ''POST'',
       init_headers =
         [(''User-Agent'',
           ''Mozilla/5.0 (compatible; Googlebot/2.1; +http://www.google.com/bot.html)'')],
       init_body = None,
       init_redirect = ''follow''\<rparr>)]"
proof -
  let ?r = "inbound ''POST'' ''https://proxy.example/https://example.com/form''
    [(''Content-Type'', ''text/plain'')] (StreamBody ''payload'')"
  let ?u = "\<lparr>url_front = ''https://proxy.example'', pathname = ''/https://example.com/form'',
             query = None, fragment = None\<rparr>"
  have m: "req_method ?r \<noteq> ''OPTIONS''"
    by (simp add: inbound_def)
  have u: "URL_new stub (req_url ?r) = Inr ?u"
    by code_simp
  have h: "startsWith (candidate ?u) ''http''"
    by code_simp
  have t: "targetUrl stub ?u = ''https://example.com/form''"
    by code_simp
  have f: "\<not> isManualMode ?r ?u"
    by code_simp
  have n: "req_method ?r = ''POST''"
    by (simp add: inbound_def)
  show ?thesis
    using outbound_request_shape [OF m u h] t f n by simp
qed

text \<open>A \<^verbatim>\<open>POST\<close> with a body: the options given to \<^verbatim>\<open>fetch\<close> have no body.\<close>

theorem inbound_body_not_forwarded_counterexample:
  "req_body (inbound ''POST'' ''https://proxy.example/https://example.com/form''
       [(''Content-Type'', ''text/plain'')] (StreamBody ''payload'')) = StreamBody ''payload''
   \<and> map (\<lambda>call. init_body (snd call)) (fst (worker_fetch stub
       (inbound ''POST'' ''https://proxy.example/https://example.com/form''
          [(''Content-Type'', ''text/plain'')] (StreamBody ''payload'')))) = [None]"
  by code_simp

text \<open>
  C5, as the code has it. In follow mode, when the outbound fetch of the target
  \<open>targetUrl P u\<close> succeeds with a status from 200 to 599, the response carries in
  \<^verbatim>\<open>X-Final-Url\<close> the URL reported by the fetch, and the target itself when the fetch reports
  none; status and body are those of the upstream response.
\<close>

theorem follow_mode_final_url:
  assumes "req_method r \<noteq> ''OPTIONS''" and "URL_new P (req_url r) = Inr u"
    and "startsWith (candidate u) ''http''"
    and "\<not> isManualMode r u"
    and "fetch P (targetUrl P u) (fetchOptions r False) = Inr upstream"
    and "200 \<le> resp_status upstream" and "resp_status upstream \<le> 599"
  shows "Headers_get ''X-Final-Url'' (resp_headers (snd (worker_fetch P r)))
      = Some (if resp_url upstream = [] then targetUrl P u else resp_url upstream)
    \<and> resp_status (snd (worker_fetch P r)) = resp_status upstream
    \<and> resp_body (snd (worker_fetch P r)) = resp_body upstream"
proof -
  obtain out where out: "compose False (targetUrl P u) upstream = Inr out"
    using compose_returns [OF assms(6,7)] by blast
  with assms(1-5) have "snd (worker_fetch P r) = out"
    by (simp add: worker_fetch_dispatch)
  then show ?thesis
    using compose_follow [OF out] compose_status_body [OF out] by simp
qed

theorem follow_mode_final_url_witness:
  "Headers_get ''X-Final-Url'' (resp_headers (snd (worker_fetch stub
      (inbound ''GET'' ''https://proxy.example/https://example.com/page'' [] NullBody))))
     = Some ''https://example.com/page/''
   \<and> resp_status (snd (worker_fetch stub
      (inbound ''GET'' ''https://proxy.example/https://example.com/page'' [] NullBody))) = 200"
proof -
  let ?r = "inbound ''GET'' ''https://proxy.example/https://example.com/page'' [] NullBody"
  let ?u = "\<lparr>url_front = ''https://proxy.example'', pathname = ''/https://example.com/page'',
             query = None, fragment = None\<rparr>"
  let ?up = "\<lparr>resp_status = 200, resp_headers = [(''Content-Type'', ''text/html'')],
              resp_body = StreamBody ''<p>page</p>'', resp_url = ''https://example.com/page/''\<rparr>"
  have m: "req_method ?r \<noteq> ''OPTIONS''"
    by (simp add: inbound_def)
  have u: "URL_new stub (req_url ?r) = Inr ?u"
    by code_simp
  have h: "startsWith (candidate ?u) ''http''"
    by code_simp
  have f: "\<not> isManualMode ?r ?u"
    by code_simp
  have a: "fetch stub (targetUrl stub ?u) (fetchOptions ?r False) = Inr ?up"
    by code_simp
  have s: "200 \<le> resp_status ?up" "resp_status ?up \<le> 599"
    by simp_all
  show ?thesis
    using follow_mode_final_url [OF m u h f a s] by simp
qed

text \<open>
  An upstream answer with status 999 in follow mode: the fetch succeeds, \<^verbatim>\<open>new Response\<close> on
  lines 67-70 throws, and the response is the 500 of the \<^verbatim>\<open>catch\<close>, without \<^verbatim>\<open>X-Final-Url\<close>.
\<close>

theorem upstream_status_out_of_range_counterexample:
  "fst (worker_fetch stub
      (inbound ''GET'' ''https://proxy.example/https://example.com/denied'' [] NullBody))
     = [(''https://example.com/denied'', fetchOptions (inbound ''GET'' [] [] NullBody) False)]
   \<and> stub_fetch ''https://example.com/denied''
        (fetchOptions (inbound ''GET'' [] [] NullBody) False)
     = Inr \<lparr>resp_status = 999, resp_headers = [(''Content-Type'', ''text/html'')],
            resp_body = StreamBody ''denied'', resp_url = ''https://example.com/denied''\<rparr>
   \<and> resp_status (snd (worker_fetch stub
        (inbound ''GET'' ''https://proxy.example/https://example.com/denied'' [] NullBody)))
     = 500
   \<and> Headers_get ''X-Final-Url'' (resp_headers (snd (worker_fetch stub
        (inbound ''GET'' ''https://proxy.example/https://example.com/denied'' [] NullBody))))
     = None"
  by code_simp

text \<open>
  C6, as the code has it. In manual mode, when the upstream response has a status in 300..399
  and a \<^verbatim>\<open>Location\<close> header whose value \<open>location\<close> is not empty, the response has the
  same status, the same body, and \<^verbatim>\<open>X-Final-Url\<close> equal to \<open>location\<close>.
\<close>

theorem manual_mode_redirect_location:
  assumes "req_method r \<noteq> ''OPTIONS''" and "URL_new P (req_url r) = Inr u"
    and "startsWith (candidate u) ''http''"
    and "isManualMode r u"
    and "fetch P (targetUrl P u) (fetchOptions r True) = Inr upstream"
    and "300 \<le> resp_status upstream" and "resp_status upstream < 400"
    and "Headers_get ''Location'' (resp_headers upstream) = Some location"
    and "location \<noteq> []"
  shows "resp_status (snd (worker_fetch P r)) = resp_status upstream
    \<and> resp_body (snd (worker_fetch P r)) = resp_body upstream
    \<and> Headers_get ''X-Final-Url'' (resp_headers (snd (worker_fetch P r))) = Some location"
proof -
  have "200 \<le> resp_status upstream" and "resp_status upstream \<le> 599"
    using assms(6,7) by simp_all
  then obtain out where out: "compose True (targetUrl P u) upstream = Inr out"
    using compose_returns by blast
  with assms(1-5) have "snd (worker_fetch P r) = out"
    by (simp add: worker_fetch_dispatch)
  then show ?thesis
    using compose_manual_location [OF out assms(6-9)] compose_status_body [OF out] by simp
qed

theorem manual_mode_redirect_location_witness:
  "resp_status (snd (worker_fetch stub
      (inbound ''GET''
         ''https://proxy.example/https://example.com/redirect?to=/final&__proxy_redirect_mode=manual''
         [] NullBody))) = 302
   \<and> resp_body (snd (worker_fetch stub
      (inbound ''GET''
         ''https://proxy.example/https://example.com/redirect?to=/final&__proxy_redirect_mode=manual''
         [] NullBody))) = StreamBody ''moved''
   \<and> Headers_get ''X-Final-Url'' (resp_headers (snd (worker_fetch stub
      (inbound ''GET''
         ''https://proxy.example/https://example.com/redirect?to=/final&__proxy_redirect_mode=manual''
         [] NullBody)))) = Some ''https://example.com/final''"
proof -
  let ?r = "inbound ''GET''
    ''https://proxy.example/https://example.com/redirect?to=/final&__proxy_redirect_mode=manual''
    [] NullBody"
  let ?u = "\<lparr>url_front = ''https://proxy.example'', pathname = ''/https://example.com/redirect'',
             query = Some ''to=/final&__proxy_redirect_mode=manual'', fragment = None\<rparr>"
  let ?up = "\<lparr>resp_status = 302,
              resp_headers = [(''Location'', ''https://example.com/final'')],
              resp_body = StreamBody ''moved'',
              resp_url = ''https://example.com/redirect?to=%2Ffinal''\<rparr>"
  have m: "req_method ?r \<noteq> ''OPTIONS''"
    by (simp add: inbound_def)
  have u: "URL_new stub (req_url ?r) = Inr ?u"
    by code_simp
  have h: "startsWith (candidate ?u) ''http''"
    by code_simp
  have f: "isManualMode ?r ?u"
    by code_simp
  have a: "fetch stub (targetUrl stub ?u) (fetchOptions ?r True) = Inr ?up"
    by code_simp
  have s: "300 \<le> resp_status ?up" "resp_status ?up < 400"
    by simp_all
  have l: "Headers_get ''Location'' (resp_headers ?up) = Some ''https://example.com/final''"
    by code_simp
  have n: "''https://example.com/final'' \<noteq> []"
    by simp
  show ?thesis
    using manual_mode_redirect_location [OF m u h f a s l n] by simp
qed

text \<open>
  An upstream answer 302 whose \<^verbatim>\<open>Location\<close> header is empty: the test \<^verbatim>\<open>if (location)\<close>
  fails and the response has no \<^verbatim>\<open>X-Final-Url\<close>.
\<close>

theorem empty_location_counterexample:
  "stub_fetch ''https://example.com/empty'' (fetchOptions (inbound ''GET'' [] [] NullBody) True)
     = Inr \<lparr>resp_status = 302, resp_headers = [(''Location'', [])],
            resp_body = NullBody, resp_url = ''https://example.com/empty''\<rparr>
   \<and> Headers_get ''Location'' [(''Location'', [])] = Some []
   \<and> fst (worker_fetch stub
      (inbound ''GET'' ''https://proxy.example/https://example.com/empty''
         [(''X-Proxy-Manual-Redirect'', ''true'')] NullBody))
     = [(''https://example.com/empty'', fetchOptions (inbound ''GET'' [] [] NullBody) True)]
   \<and> Headers_get ''X-Final-Url'' (resp_headers (snd (worker_fetch stub
         (inbound ''GET'' ''https://proxy.example/https://example.com/empty''
            [(''X-Proxy-Manual-Redirect'', ''true'')] NullBody))))
     = None"
  by code_simp



text \<open>
  C9. Every response of the handler, for every request and every host, has the header
  \<^verbatim>\<open>Access-Control-Allow-Origin\<close> with value \<^verbatim>\<open>*\<close>.
\<close>

theorem allow_origin_on_every_response:
  "Headers_get ''Access-Control-Allow-Origin'' (resp_headers (snd (worker_fetch P r)))
     = Some ''*''"
proof (cases "req_method r = ''OPTIONS''")
  case True
  then show ?thesis
    by (simp add: worker_fetch_def Response_object_def Headers_get_def same_name_def
        ascii_lower_def)
next
  case False
  have plain: "Headers_get ''Access-Control-Allow-Origin''
      (resp_headers (Response_object (TextBody t) st [(''Access-Control-Allow-Origin'', ''*'')]))
      = Some ''*''" for t st
    by (simp add: text_response Headers_get_def same_name_def ascii_lower_def)
  show ?thesis
  proof (cases "URL_new P (req_url r)")
    case (Inl e)
    with False show ?thesis
      by (simp add: worker_fetch_def try_block_def plain)
  next
    case (Inr u)
    show ?thesis
    proof (cases "startsWith (candidate u) ''http''")
      case True
      with False Inr show ?thesis
        by (simp add: worker_fetch_dispatch plain compose_allow_origin split: sum.splits)
    next
      case no: False
      with False Inr show ?thesis
        by (simp add: worker_fetch_def try_block_def Response_new_def plain)
    qed
  qed
qed

text \<open>
  C10. Two requests other than \<^verbatim>\<open>OPTIONS\<close> with the same method, the same URL and the same
  value of \<^verbatim>\<open>X-Proxy-Manual-Redirect\<close> lead to the same outbound requests, whatever their
  other headers and bodies; every outbound request has the fixed user agent as its only
  header and no body.
\<close>

theorem outbound_request_ignores_other_headers_and_body:
  assumes "req_method r1 \<noteq> ''OPTIONS''"
    and "req_method r2 = req_method r1" and "req_url r2 = req_url r1"
    and "Headers_get ''X-Proxy-Manual-Redirect'' (req_headers r2)
       = Headers_get ''X-Proxy-Manual-Redirect'' (req_headers r1)"
  shows "fst (worker_fetch P r2) = fst (worker_fetch P r1)
    \<and> list_all (\<lambda>call.
          init_headers (snd call) =
            [(''User-Agent'',
              ''Mozilla/5.0 (compatible; Googlebot/2.1; +http://www.google.com/bot.html)'')]
          \<and> init_body (snd call) = None)
        (fst (worker_fetch P r1))"
proof -
  have calls: "fst (try_block P r2) = fst (try_block P r1)"
    using assms(2-4)
    by (simp add: try_block_def Let_def isManualMode_def fetchOptions_def split: sum.splits)
  have shape: "list_all (\<lambda>call.
          init_headers (snd call) =
            [(''User-Agent'',
              ''Mozilla/5.0 (compatible; Googlebot/2.1; +http://www.google.com/bot.html)'')]
          \<and> init_body (snd call) = None)
        (fst (try_block P r1))"
    by (simp add: try_block_def Let_def fetchOptions_def split: sum.splits)
  have "fst (worker_fetch P r) = fst (try_block P r)" if "req_method r \<noteq> ''OPTIONS''" for r
    using that by (simp add: worker_fetch_def split: prod.splits sum.splits)
  with assms(1,2) calls shape show ?thesis by simp
qed

theorem outbound_request_ignores_other_headers_and_body_witness:
  "fst (worker_fetch stub
      (inbound ''GET'' ''https://proxy.example/https://example.com/page''
         [(''Authorization'', ''Bearer secret''), (''Cookie'', ''session=1'')]
         (StreamBody ''payload'')))
   = fst (worker_fetch stub
      (inbound ''GET'' ''https://proxy.example/https://example.com/page'' [] NullBody))
   \<and> fst (worker_fetch stub
      (inbound ''GET'' ''https://proxy.example/https://example.com/page'' [] NullBody))
   = [(''https://example.com/page'',
       \<lparr>init_method = ''GET'',
        init_headers =
          [(''User-Agent'',
            ''Mozilla/5.0 (compatible; Googlebot/2.1; +http://www.google.com/bot.html)'')],
        init_body = None,
        init_redirect = ''follow''\<rparr>)]"
proof -
  let ?r1 = "inbound ''GET'' ''https://proxy.example/https://example.com/page'' [] NullBody"
  let ?r2 = "inbound ''GET'' ''https://proxy.example/https://example.com/page''
         [(''Authorization'', ''Bearer secret''), (''Cookie'', ''session=1'')]
         (StreamBody ''payload'')"
  have m: "req_method ?r1 \<noteq> ''OPTIONS''"
    by (simp add: inbound_def)
  have e: "req_method ?r2 = req_method ?r1" "req_url ?r2 = req_url ?r1"
    by (simp_all add: inbound_def)
  have h: "Headers_get ''X-Proxy-Manual-Redirect'' (req_headers ?r2)
       = Headers_get ''X-Proxy-Manual-Redirect'' (req_headers ?r1)"
    by code_simp
  have c: "fst (worker_fetch stub ?r1)
   = [(''https://example.com/page'',
       \<lparr>init_method = ''GET'',
        init_headers =
          [(''User-Agent'',
            ''Mozilla/5.0 (compatible; Googlebot/2.1; +http://www.google.com/bot.html)'')],
        init_body = None,
        init_redirect = ''follow''\<rparr>)]"
    by code_simp
  show ?thesis
    using outbound_request_ignores_other_headers_and_body [OF m e h, of stub] c by simp
qed

end
